theory Spec2Isabelle
  imports Complex_Main "HOL-Library.Multiset"
begin

section \<open>JavaScript values used by the colour code\<close>

text \<open>
  The extension and the pipe server are JavaScript. Strings are modelled as \<open>string\<close>,
  arrays as lists, \<open>undefined\<close> as \<open>None\<close> of an option type and thrown errors as the
  left summand of a sum type. JavaScript numbers are IEEE doubles; the model computes with
  exact reals (type \<open>real\<close>), so it leaves out the rounding of the last binary digit of
  intermediate results. \<open>NaN\<close> is written \<open>None\<close> where the code can produce it.
\<close>

datatype error = InsufficientColors | UnknownStrategy

text \<open>\<open>Math.round\<close>: the nearest integer, a tie going up.\<close>

definition Math_round :: "real \<Rightarrow> int" where
  "Math_round x = \<lfloor>x + 1 / 2\<rfloor>"

text \<open>\<open>xs[i]\<close> on an array: \<open>undefined\<close> outside the range.\<close>

definition js_index :: "'a list \<Rightarrow> int \<Rightarrow> 'a option" where
  "js_index xs i = (if 0 \<le> i \<and> i < int (length xs) then Some (xs ! nat i) else None)"

subsection \<open>Hexadecimal digits and number formatting\<close>

definition is_hex_digit :: "char \<Rightarrow> bool" where
  "is_hex_digit c \<longleftrightarrow> c \<in> set ''0123456789abcdefABCDEF''"

definition hex_digit_val :: "char \<Rightarrow> nat" where
  "hex_digit_val c =
     (let n = (of_char c :: nat) in
      if 48 \<le> n \<and> n \<le> 57 then n - 48
      else if 97 \<le> n \<and> n \<le> 102 then n - 87
      else n - 55)"

text \<open>\<open>parseInt(s, 16)\<close> on a string of hexadecimal digits, most significant first.\<close>

definition hex_val :: "string \<Rightarrow> nat" where
  "hex_val s = foldl (\<lambda>acc c. 16 * acc + hex_digit_val c) 0 s"

definition digit_char :: "nat \<Rightarrow> char" where
  "digit_char d = ''0123456789abcdef'' ! d"

text \<open>\<open>n.toString(16)\<close> and \<open>String(n)\<close> for a non-negative integer \<open>n\<close>.\<close>

fun digits_of :: "nat \<Rightarrow> nat \<Rightarrow> string" where
  "digits_of base n =
     (if base < 2 \<or> n < base then [digit_char n]
      else digits_of base (n div base) @ [digit_char (n mod base)])"

declare digits_of.simps [simp del]

definition toString16 :: "int \<Rightarrow> string" where
  "toString16 n = (if n < 0 then CHR ''-'' # digits_of 16 (nat (- n)) else digits_of 16 (nat n))"

definition toString10 :: "nat \<Rightarrow> string" where
  "toString10 n = digits_of 10 n"

text \<open>\<open>s.padStart(6, '0')\<close>.\<close>

definition padStart6 :: "string \<Rightarrow> string" where
  "padStart6 s = replicate (6 - length s) CHR ''0'' @ s"

text \<open>The 32-bit signed shift \<open>x << k\<close>.\<close>

definition toInt32 :: "int \<Rightarrow> int" where
  "toInt32 x = (x + 2 ^ 31) mod 2 ^ 32 - 2 ^ 31"

definition shl32 :: "int \<Rightarrow> nat \<Rightarrow> int" where
  "shl32 x k = toInt32 (toInt32 x * 2 ^ (k mod 32))"

section \<open>Gradient generation (extension.js)\<close>

type_synonym rgb = "nat \<times> nat \<times> nat"

text \<open>
  \<open>hexToRgb\<close> matches \<open>/^#?([a-f\d]{2})([a-f\d]{2})([a-f\d]{2})$/i\<close>: an optional
  \<open>#\<close>, then exactly six hexadecimal digits; \<open>null\<close> is \<open>None\<close>.
\<close>

definition hexToRgb :: "string \<Rightarrow> rgb option" where
  "hexToRgb hex =
     (let body = (case hex of c # rest \<Rightarrow> if c = CHR ''#'' then rest else hex | [] \<Rightarrow> hex) in
      if length body = 6 \<and> list_all is_hex_digit body
      then Some (hex_val (take 2 body), hex_val (take 2 (drop 2 body)), hex_val (drop 4 body))
      else None)"

definition rgbToHex :: "int \<Rightarrow> int \<Rightarrow> int \<Rightarrow> string" where
  "rgbToHex r g b = CHR ''#'' # drop 1 (toString16 (shl32 1 24 + shl32 r 16 + shl32 g 8 + b))"

text \<open>
  \<open>interpolateColors\<close>. An argument may be \<open>undefined\<close> (\<open>None\<close>); the regular
  expression then sees the text \<open>undefined\<close>, which does not match.
\<close>

definition interpolateColors :: "string option \<Rightarrow> string option \<Rightarrow> real \<Rightarrow> string option" where
  "interpolateColors color1 color2 factor =
     (case (Option.bind color1 hexToRgb, Option.bind color2 hexToRgb) of
        (Some (r1, g1, b1), Some (r2, g2, b2)) \<Rightarrow>
          Some (rgbToHex
            (Math_round (of_nat r1 + factor * (of_nat r2 - of_nat r1)))
            (Math_round (of_nat g1 + factor * (of_nat g2 - of_nat g1)))
            (Math_round (of_nat b1 + factor * (of_nat b2 - of_nat b1))))
      | _ \<Rightarrow> color1)"

record stop =
  color :: "string option"
  position :: "real option"

record gradient =
  stops :: "stop list"
  direction :: string

text \<open>
  One iteration of the loop of \<open>generateGradientStops\<close>. With \<open>steps = 1\<close> the step
  size is \<open>100 / 0 = Infinity\<close>, so the position \<open>0 * Infinity\<close> and the colour index
  \<open>0 / 0\<close> are \<open>NaN\<close>: both array reads give \<open>undefined\<close>, which \<open>interpolateColors\<close>
  returns, and the rounded position stays \<open>NaN\<close>.
\<close>

definition gradientStop :: "string list \<Rightarrow> nat \<Rightarrow> nat \<Rightarrow> stop" where
  "gradientStop colors steps i =
     (if steps = 1 then \<lparr>color = interpolateColors None None 0, position = None\<rparr>
      else
        let stepSize = 100 / (of_nat steps - 1);
            pos = of_nat i * stepSize;
            colorIndex = (of_nat i / (of_nat steps - 1)) * (of_nat (length colors) - 1);
            lowerIndex = \<lfloor>colorIndex\<rfloor>;
            upperIndex = \<lceil>colorIndex\<rceil>;
            factor = colorIndex - of_int lowerIndex;
            interpolatedColor =
              (if lowerIndex = upperIndex then js_index colors lowerIndex
               else interpolateColors (js_index colors lowerIndex) (js_index colors upperIndex) factor)
        in \<lparr>color = interpolatedColor, position = Some (of_int (Math_round (pos * 100)) / 100)\<rparr>)"

text \<open>The \<open>for\<close> loop, pushing one stop per iteration.\<close>

function gradientLoop :: "string list \<Rightarrow> nat \<Rightarrow> nat \<Rightarrow> stop list \<Rightarrow> stop list" where
  "gradientLoop colors steps i acc =
     (if i < steps then gradientLoop colors steps (i + 1) (acc @ [gradientStop colors steps i])
      else acc)"
  by pat_completeness auto
termination
  by (relation "measure (\<lambda>(colors, steps, i, acc). steps - i)") auto

declare gradientLoop.simps [simp del]

definition generateGradientStops :: "string list \<Rightarrow> nat \<Rightarrow> string \<Rightarrow> error + gradient" where
  "generateGradientStops colors steps dir =
     (if length colors < 2 then Inl InsufficientColors
      else Inr \<lparr>stops = gradientLoop colors steps 0 [], direction = dir\<rparr>)"

section \<open>JavaScript objects and their property order\<close>

text \<open>
  A plain object is the list of its own properties in the order they were created.
  Defining an existing key keeps the key's place; a new key goes to the end.
  \<open>Object.entries\<close>, like \<open>JSON.stringify\<close>, lists the array-index keys first, in
  ascending numeric order, and then the other keys in creation order. An array index is
  a canonical numeric string (the decimal text of its own value) below \<open>2^32 - 1\<close>.
\<close>

type_synonym 'v jsobj = "(string \<times> 'v) list"

fun js_set :: "'v jsobj \<Rightarrow> string \<Rightarrow> 'v \<Rightarrow> 'v jsobj" where
  "js_set [] k v = [(k, v)]"
| "js_set ((k', v') # ps) k v = (if k' = k then (k, v) # ps else (k', v') # js_set ps k v)"

text \<open>
  The assignment \<open>obj[k] = v\<close>. The key \<open>__proto__\<close> is the prototype accessor of a plain
  object: assigning to it creates no own property.
\<close>

definition js_assign :: "'v jsobj \<Rightarrow> string \<Rightarrow> 'v \<Rightarrow> 'v jsobj" where
  "js_assign obj k v = (if k = ''__proto__'' then obj else js_set obj k v)"

definition js_get :: "'v jsobj \<Rightarrow> string \<Rightarrow> 'v option" where
  "js_get obj k = map_of obj k"

definition is_dec_digit :: "char \<Rightarrow> bool" where
  "is_dec_digit c \<longleftrightarrow> c \<in> set ''0123456789''"

definition dec_val :: "string \<Rightarrow> nat" where
  "dec_val s = foldl (\<lambda>acc c. 10 * acc + (of_char c - 48)) 0 s"

definition array_index :: "string \<Rightarrow> nat option" where
  "array_index k =
     (if k \<noteq> [] \<and> list_all is_dec_digit k \<and> toString10 (dec_val k) = k \<and> dec_val k < 4294967295
      then Some (dec_val k) else None)"

definition js_entries :: "'v jsobj \<Rightarrow> (string \<times> 'v) list" where
  "js_entries obj =
     sort_key (\<lambda>(k, v). the (array_index k)) (filter (\<lambda>(k, v). array_index k \<noteq> None) obj)
     @ filter (\<lambda>(k, v). array_index k = None) obj"

section \<open>Palette generation in the extension (extension.js)\<close>

definition TAILWIND_SHADES :: "nat list" where
  "TAILWIND_SHADES = [50, 100, 200, 300, 400, 500, 600, 700, 800, 900, 950]"

definition is_js_space :: "char \<Rightarrow> bool" where
  "is_js_space c \<longleftrightarrow> (of_char c :: nat) \<in> {9, 10, 11, 12, 13, 32, 160}"

text \<open>
  \<open>parseInt(s, 16)\<close>: leading white space, an optional sign and an optional \<open>0x\<close> are
  skipped, then the longest run of hexadecimal digits is read; \<open>NaN\<close> (\<open>None\<close>) when
  there is none.
\<close>

definition parseInt16 :: "string \<Rightarrow> int option" where
  "parseInt16 s =
     (let s1 = dropWhile is_js_space s;
          sign = (case s1 of c # _ \<Rightarrow> if c = CHR ''-'' then - 1 else 1 | [] \<Rightarrow> (1 :: int));
          s2 = (case s1 of c # rest \<Rightarrow> if c = CHR ''-'' \<or> c = CHR ''+'' then rest else s1 | [] \<Rightarrow> s1);
          s3 = (if take 2 s2 = ''0x'' \<or> take 2 s2 = ''0X'' then drop 2 s2 else s2);
          z = takeWhile is_hex_digit s3
      in if z = [] then None else Some (sign * int (hex_val z)))"

text \<open>\<open>x.toString(16).padStart(6, '0')\<close> for an integer or \<open>NaN\<close>.\<close>

definition hex6 :: "int option \<Rightarrow> string" where
  "hex6 x = padStart6 (case x of None \<Rightarrow> ''NaN'' | Some n \<Rightarrow> toString16 n)"

text \<open>
  The body of the \<open>forEach\<close> in \<open>generateTailwindPalette\<close>: the colour of one shade.
  \<open>Math.min\<close> and \<open>Math.floor\<close> pass \<open>NaN\<close> on.
\<close>

definition shadeColor :: "string \<Rightarrow> int option \<Rightarrow> nat \<Rightarrow> string" where
  "shadeColor baseColor baseColorNum shade =
     (let factor = (of_nat shade :: real) / 500 in
      if shade < 500 then
        CHR ''#'' # hex6 (map_option
          (\<lambda>n. min 255 \<lfloor>of_int n + (255 - of_int n) * (1 - factor)\<rfloor>) baseColorNum)
      else if shade > 500 then
        CHR ''#'' # hex6 (map_option
          (\<lambda>n. \<lfloor>of_int n * (1 - (factor - 1) * (7 / 10))\<rfloor>) baseColorNum)
      else baseColor)"

record palette_result =
  name :: string
  palette :: "string jsobj"

definition generateTailwindPalette :: "string \<Rightarrow> string \<Rightarrow> palette_result" where
  "generateTailwindPalette baseColor nm =
     (let baseColorNum = parseInt16 (remove1 CHR ''#'' baseColor) in
      \<lparr>name = nm,
       palette = foldl (\<lambda>obj shade. js_assign obj (toString10 shade) (shadeColor baseColor baseColorNum shade))
                   [] TAILWIND_SHADES\<rparr>)"

section \<open>Formatting palettes (extension.js)\<close>

definition nl :: char where
  "nl = CHR 0x0A"

text \<open>\<open>JSON.stringify\<close> of a string: quotes, with the escapes of ECMAScript.\<close>

definition json_escape :: "char \<Rightarrow> string" where
  "json_escape c =
     (let n = (of_char c :: nat) in
      if n = 8 then [CHR 0x5C, CHR ''b''] else if n = 9 then [CHR 0x5C, CHR ''t'']
      else if n = 10 then [CHR 0x5C, CHR ''n''] else if n = 12 then [CHR 0x5C, CHR ''f'']
      else if n = 13 then [CHR 0x5C, CHR ''r'']
      else if c = CHR 0x22 then [CHR 0x5C, CHR 0x22]
      else if c = CHR 0x5C then [CHR 0x5C, CHR 0x5C]
      else if n < 32 then [CHR 0x5C, CHR ''u'', CHR ''0'', CHR ''0'', digit_char (n div 16), digit_char (n mod 16)]
      else [c])"

definition json_quote :: "string \<Rightarrow> string" where
  "json_quote s = CHR 0x22 # concat (map json_escape s) @ [CHR 0x22]"

text \<open>
  \<open>JSON.stringify\<close> of an object whose members are already serialised, at the given
  indentation, with \<open>gap\<close> spaces per level.
\<close>

definition join :: "string \<Rightarrow> string list \<Rightarrow> string" where
  "join sep xs = (case xs of [] \<Rightarrow> [] | x # rest \<Rightarrow> x @ concat (map (\<lambda>y. sep @ y) rest))"

definition json_object :: "nat \<Rightarrow> nat \<Rightarrow> (string \<times> string) list \<Rightarrow> string" where
  "json_object gap indent members =
     (if members = [] then ''{}''
      else ''{'' @ [nl] @ replicate (indent + gap) CHR '' ''
           @ join ('','' @ [nl] @ replicate (indent + gap) CHR '' '')
               (map (\<lambda>(k, v). json_quote k @ '': '' @ v) members)
           @ [nl] @ replicate indent CHR '' '' @ ''}'')"

text \<open>\<open>JSON.stringify(colors, null, gap)\<close> for the object of palettes.\<close>

definition json_colors :: "nat \<Rightarrow> (string jsobj) jsobj \<Rightarrow> string" where
  "json_colors gap colors =
     json_object gap 0
       (map (\<lambda>(colorName, shades).
               (colorName, json_object gap gap (map (\<lambda>(shade, hex). (shade, json_quote hex)) (js_entries shades))))
          (js_entries colors))"

definition css_line :: "string \<Rightarrow> string \<Rightarrow> string \<Rightarrow> string" where
  "css_line colorName shade hex = ''  --color-'' @ colorName @ ''-'' @ shade @ '': '' @ hex @ '';''"

definition generateTailwindConfig :: "palette_result list \<Rightarrow> string \<Rightarrow> string" where
  "generateTailwindConfig palettes format =
     (let colors = foldl (\<lambda>obj p. js_assign obj (name p) (palette p)) [] palettes in
      if format = ''css'' then
        '':root {'' @ [nl]
        @ concat (map (\<lambda>(colorName, shades).
                    concat (map (\<lambda>(shade, hex). css_line colorName shade hex @ [nl]) (js_entries shades)))
                  (js_entries colors))
        @ ''}''
      else if format = ''js'' then
        ''module.exports = {'' @ [nl] @ ''  theme: {'' @ [nl] @ ''    extend: {'' @ [nl]
        @ ''      colors: '' @ json_colors 8 colors @ [nl]
        @ ''    }'' @ [nl] @ ''  }'' @ [nl] @ ''}''
      else json_colors 2 colors)"

section \<open>Colour schemes in the extension (extension.js)\<close>

text \<open>
  The table \<open>strategies\<close>: three seed colours (hue, saturation, lightness) per strategy.
  The extension writes each seed as the text \<open>hsl(h, s%, l%)\<close>, the pipe server as a
  call \<open>chroma.hsl(h, s, l)\<close>; the numbers are the same in both files. Any other
  strategy name makes \<open>strategies[strategy](baseHue)\<close> throw.
\<close>

definition strategies :: "string \<Rightarrow> real \<Rightarrow> (real \<times> real \<times> real) list option" where
  "strategies strategy hue =
     (if strategy = ''complementary'' then
        Some [(hue, 8 / 10, 6 / 10), (hue + 180, 8 / 10, 6 / 10), (hue + 90, 7 / 10, 5 / 10)]
      else if strategy = ''analogous'' then
        Some [(hue, 8 / 10, 6 / 10), (hue + 30, 8 / 10, 6 / 10), (hue - 30, 8 / 10, 6 / 10)]
      else if strategy = ''monochromatic'' then
        Some [(hue, 8 / 10, 6 / 10), (hue, 6 / 10, 5 / 10), (hue, 9 / 10, 7 / 10)]
      else if strategy = ''triadic'' then
        Some [(hue, 8 / 10, 6 / 10), (hue + 120, 8 / 10, 6 / 10), (hue + 240, 8 / 10, 6 / 10)]
      else None)"

text \<open>\<open>colorNames[index] || `color${index + 1}`\<close>: a missing or empty name is replaced.\<close>

definition schemeName :: "string list \<Rightarrow> nat \<Rightarrow> string" where
  "schemeName colorNames index =
     (case js_index colorNames (int index) of
        Some n \<Rightarrow> if n = [] then ''color'' @ toString10 (index + 1) else n
      | None \<Rightarrow> ''color'' @ toString10 (index + 1))"

text \<open>
  The palettes built by the tool \<open>generate_color_scheme\<close> of the extension: every seed is
  replaced by the constant \<open>'#3B82F6'\<close> before the palette is generated.
\<close>

definition generateSchemeTool :: "string \<Rightarrow> real \<Rightarrow> string list \<Rightarrow> error + palette_result list" where
  "generateSchemeTool strategy baseHue colorNames =
     (case strategies strategy baseHue of
        None \<Rightarrow> Inl UnknownStrategy
      | Some baseColors \<Rightarrow>
          Inr (map (\<lambda>index. let hexColor = ''#3B82F6'' in
                              generateTailwindPalette hexColor (schemeName colorNames index))
                 [0..<length baseColors]))"

section \<open>The colour library used by the pipe server\<close>

text \<open>
  Modelled from the spec: the library \<open>chroma-js\<close> that the pipe server imports is not part
  of the sources. The spec's Color is a value ``representable in hexadecimal RGB
  (\<open>#rrggbb\<close>), convertible to/from HSL (hue in [0,360), saturation in [0,1], lightness in
  [0,1]) and RGB (three 8-bit channels)'', with one canonical hex form. The definitions
  below are the usual conversions between RGB and HSL, in the order of operations of the
  library: \<open>chroma_parse\<close> reads \<open>#rrggbb\<close> (the only input form modelled; \<open>None\<close> for any
  other text), \<open>rgb2hsl\<close> is \<open>color.hsl()\<close> with an undefined hue (\<open>NaN\<close>) for greys,
  \<open>chroma_hsl\<close> is \<open>chroma.hsl(h, s, l)\<close> and \<open>chroma_hex\<close> is \<open>color.hex()\<close>, in lower case.
\<close>

type_synonym hsl = "real option \<times> real \<times> real"

definition hsl_h :: "hsl \<Rightarrow> real option" where
  "hsl_h c = fst c"

definition hsl_s :: "hsl \<Rightarrow> real" where
  "hsl_s c = fst (snd c)"

definition hsl_l :: "hsl \<Rightarrow> real" where
  "hsl_l c = snd (snd c)"

definition chroma_parse :: "string \<Rightarrow> rgb option" where
  "chroma_parse text =
     (let body = (case text of c # rest \<Rightarrow> if c = CHR ''#'' then rest else text | [] \<Rightarrow> text) in
      if length body = 6 \<and> list_all is_hex_digit body
      then Some (hex_val (take 2 body), hex_val (take 2 (drop 2 body)), hex_val (drop 4 body))
      else None)"

definition rgb2hsl :: "rgb \<Rightarrow> hsl" where
  "rgb2hsl c =
     (case c of (r0, g0, b0) \<Rightarrow>
        let r = (of_nat r0 :: real) / 255; g = of_nat g0 / 255; b = of_nat b0 / 255;
            minRgb = min r (min g b);
            maxRgb = max r (max g b);
            l = (maxRgb + minRgb) / 2
        in if maxRgb = minRgb then (None, 0, l)
           else
             let s = (if l < 1 / 2 then (maxRgb - minRgb) / (maxRgb + minRgb)
                      else (maxRgb - minRgb) / (2 - maxRgb - minRgb));
                 h = (if r = maxRgb then (g - b) / (maxRgb - minRgb)
                      else if g = maxRgb then 2 + (b - r) / (maxRgb - minRgb)
                      else 4 + (r - g) / (maxRgb - minRgb));
                 h60 = h * 60
             in (Some (if h60 < 0 then h60 + 360 else h60), s, l))"

definition hsl_channel :: "real \<Rightarrow> real \<Rightarrow> real \<Rightarrow> real" where
  "hsl_channel t1 t2 t =
     (let ta = (if t < 0 then t + 1 else t);
          tb = (if ta > 1 then ta - 1 else ta)
      in if 6 * tb < 1 then t1 + (t2 - t1) * 6 * tb
         else if 2 * tb < 1 then t2
         else if 3 * tb < 2 then t1 + (t2 - t1) * (2 / 3 - tb) * 6
         else t1)"

definition chroma_hsl :: "real option \<Rightarrow> real \<Rightarrow> real \<Rightarrow> real \<times> real \<times> real" where
  "chroma_hsl h s l =
     (if s = 0 then (l * 255, l * 255, l * 255)
      else
        let t2 = (if l < 1 / 2 then l * (1 + s) else l + s - l * s);
            t1 = 2 * l - t2
        in case h of
             None \<Rightarrow> (of_int (Math_round (t1 * 255)), of_int (Math_round (t1 * 255)),
                      of_int (Math_round (t1 * 255)))
           | Some hue \<Rightarrow>
               let h1 = hue / 360 in
               (of_int (Math_round (hsl_channel t1 t2 (h1 + 1 / 3) * 255)),
                of_int (Math_round (hsl_channel t1 t2 h1 * 255)),
                of_int (Math_round (hsl_channel t1 t2 (h1 - 1 / 3) * 255))))"

text \<open>
  \<open>color.hex()\<close>: the channels are rounded and written as six lower-case hexadecimal
  digits. The channels are between 0 and 255 here, so the library's \<open>r << 16 | g << 8 | b\<close>
  is the sum below.
\<close>

definition chroma_hex :: "real \<times> real \<times> real \<Rightarrow> string" where
  "chroma_hex c =
     (case c of (r, g, b) \<Rightarrow>
        CHR ''#'' # padStart6 (toString16 (Math_round r * 65536 + Math_round g * 256 + Math_round b)))"

section \<open>Palette generation in the pipe server\<close>

text \<open>
  The body of the \<open>forEach\<close> of the server's \<open>generateTailwindPalette\<close>: the hue,
  saturation and lightness handed to \<open>chroma.hsl\<close> for one shade of the base colour.
\<close>

definition shadeHSL :: "hsl \<Rightarrow> nat \<Rightarrow> hsl" where
  "shadeHSL base shade =
     (case base of (h, s, l) \<Rightarrow>
        if shade \<le> 500 then
          let ratio = (500 - of_nat shade) / 450;
              lightness = l + (95 / 100 - l) * ratio;
              saturation = max (1 / 10) (s * (1 - ratio * (7 / 10)))
          in (h, saturation, lightness)
        else
          let ratio = (of_nat shade - 500) / 450;
              lightness = l * (1 - ratio * (85 / 100));
              saturation = min 1 (s * (1 + ratio * (2 / 10)))
          in (h, saturation, lightness))"

definition hsl_hex :: "hsl \<Rightarrow> string" where
  "hsl_hex c = (case c of (h, s, l) \<Rightarrow> chroma_hex (chroma_hsl h s l))"

text \<open>
  The server's \<open>generateTailwindPalette\<close>. The result is \<open>None\<close> when the base colour is
  not of the form \<open>#rrggbb\<close>, the only form of \<open>chroma(baseColor)\<close> that is modelled.
\<close>

definition generateTailwindPalette_server :: "string \<Rightarrow> string \<Rightarrow> palette_result option" where
  "generateTailwindPalette_server baseColor nm =
     (case chroma_parse baseColor of
        None \<Rightarrow> None
      | Some rgb \<Rightarrow>
          Some \<lparr>name = nm,
                palette = foldl (\<lambda>obj shade. js_assign obj (toString10 shade) (hsl_hex (shadeHSL (rgb2hsl rgb) shade)))
                            [] TAILWIND_SHADES\<rparr>)"

text \<open>
  The server's \<open>generateTailwindConfig\<close>. Its source spells the line ends of the \<open>css\<close>
  format \<open>'\\n'\<close>, a backslash followed by the letter n.
\<close>

definition generateTailwindConfig_server :: "palette_result list \<Rightarrow> string \<Rightarrow> string" where
  "generateTailwindConfig_server palettes format =
     (let colors = foldl (\<lambda>obj p. js_assign obj (name p) (palette p)) [] palettes in
      if format = ''css'' then
        '':root {'' @ [CHR 0x5C, CHR ''n'']
        @ concat (map (\<lambda>(colorName, shades).
                    concat (map (\<lambda>(shade, hex). css_line colorName shade hex @ [CHR 0x5C, CHR ''n''])
                              (js_entries shades)))
                  (js_entries colors))
        @ ''}''
      else if format = ''js'' then
        ''module.exports = {'' @ [nl] @ ''  theme: {'' @ [nl] @ ''    extend: {'' @ [nl]
        @ ''      colors: '' @ json_colors 8 colors @ [nl]
        @ ''    }'' @ [nl] @ ''  }'' @ [nl] @ ''}''
      else json_colors 2 colors)"

text \<open>The palettes of the server's \<open>generate_color_scheme\<close>: each seed's hex form is the base.\<close>

definition generateColorScheme_server ::
  "string \<Rightarrow> real \<Rightarrow> string list \<Rightarrow> error + palette_result option list" where
  "generateColorScheme_server strategy baseHue colorNames =
     (case strategies strategy baseHue of
        None \<Rightarrow> Inl UnknownStrategy
      | Some baseColors \<Rightarrow>
          Inr (map (\<lambda>(c, index).
                      generateTailwindPalette_server (hsl_hex (case c of (h, s, l) \<Rightarrow> (Some h, s, l)))
                        (schemeName colorNames index))
                 (zip baseColors [0..<length baseColors])))"

section \<open>Properties of the gradient\<close>

lemma gradientLoop_eq:
  "gradientLoop colors steps i acc = acc @ map (gradientStop colors steps) [i..<steps]"
proof (induction colors steps i acc rule: gradientLoop.induct)
  case (1 colors steps i acc)
  show ?case
  proof (cases "i < steps")
    case True
    then show ?thesis
      using "1.IH" by (subst gradientLoop.simps) (simp add: upt_conv_Cons)
  next
    case False
    then show ?thesis
      by (subst gradientLoop.simps) simp
  qed
qed

lemma generateGradientStops_Inr:
  "2 \<le> length colors \<Longrightarrow>
   generateGradientStops colors steps dir =
     Inr \<lparr>stops = map (gradientStop colors steps) [0..<steps], direction = dir\<rparr>"
  by (simp add: generateGradientStops_def gradientLoop_eq)

lemma gradientStop_position:
  "steps \<noteq> 1 \<Longrightarrow>
   position (gradientStop colors steps i) =
     Some (of_int \<lfloor>real i * (100 / (real steps - 1)) * 100 + 1 / 2\<rfloor> / 100)"
  by (simp add: gradientStop_def Let_def Math_round_def)

lemma gradientStop_first:
  assumes "2 \<le> length colors" "2 \<le> steps"
  shows "gradientStop colors steps 0 = \<lparr>color = Some (hd colors), position = Some 0\<rparr>"
proof -
  from assms(1) have ne: "colors \<noteq> []" by auto
  then have "colors ! 0 = hd colors" by (simp add: hd_conv_nth)
  with assms ne show ?thesis
    by (simp add: gradientStop_def Let_def Math_round_def js_index_def)
qed

lemma gradientStop_last:
  assumes "2 \<le> length colors" "2 \<le> steps"
  shows "gradientStop colors steps (steps - 1) = \<lparr>color = Some (last colors), position = Some 100\<rparr>"
proof -
  define d where "d = real steps - 1"
  from assms(1) have ne: "colors \<noteq> []" by auto
  have d: "real (steps - 1) = d" "d \<noteq> 0"
    using assms(2) by (simp_all add: d_def)
  have one: "d / d = 1" and hundred: "d * (100 / d) = 100"
    using d(2) by simp_all
  have len: "real (length colors) - 1 = of_int (int (length colors) - 1)"
    by simp
  have "nat (int (length colors) - 1) = length colors - 1"
    by simp
  then have lst: "colors ! nat (int (length colors) - 1) = last colors"
    using ne by (simp add: last_conv_nth)
  have "steps \<noteq> 1" using assms(2) by simp
  then show ?thesis
    unfolding gradientStop_def Let_def d d_def [symmetric] one hundred
    using ne by (simp add: Math_round_def js_index_def lst len del: of_int_diff)
qed

lemma round_step_mono:
  fixes x y :: real
  assumes "x + 1 \<le> y"
  shows "\<lfloor>x + 1 / 2\<rfloor> < \<lfloor>y + 1 / 2\<rfloor>"
proof -
  have "\<lfloor>x + 1 / 2\<rfloor> + 1 = \<lfloor>(x + 1) + 1 / 2\<rfloor>" by linarith
  also have "\<dots> \<le> \<lfloor>y + 1 / 2\<rfloor>" using assms by (intro floor_mono) simp
  finally show ?thesis by simp
qed

lemma gradient_positions_increase:
  assumes "2 \<le> steps" "steps \<le> 50" "i < j"
  shows "\<lfloor>real i * (100 / (real steps - 1)) * 100 + 1 / 2\<rfloor>
       < \<lfloor>real j * (100 / (real steps - 1)) * 100 + 1 / 2\<rfloor>"
proof -
  define c where "c = 100 / (real steps - 1) * 100"
  have "0 < real steps - 1" "real steps - 1 \<le> 10000"
    using assms(1,2) by simp_all
  then have c1: "1 \<le> c"
    unfolding c_def by (simp add: field_simps)
  have "real i + 1 \<le> real j"
    using assms(3) by linarith
  then have "(real i + 1) * c \<le> real j * c"
    using c1 by (intro mult_right_mono) simp_all
  moreover have "real i * c + 1 \<le> (real i + 1) * c"
    using c1 by (simp add: algebra_simps)
  ultimately have "real i * c + 1 \<le> real j * c"
    by linarith
  then have "\<lfloor>real i * c + 1 / 2\<rfloor> < \<lfloor>real j * c + 1 / 2\<rfloor>"
    by (rule round_step_mono)
  then show ?thesis
    by (simp add: c_def mult.assoc)
qed

subsection \<open>The worked example: red to blue in three steps\<close>

lemma hexToRgb_red: "hexToRgb ''#FF0000'' = Some (255, 0, 0)"
  by (simp add: hexToRgb_def is_hex_digit_def hex_val_def hex_digit_val_def)

lemma hexToRgb_blue: "hexToRgb ''#0000FF'' = Some (0, 0, 255)"
  by (simp add: hexToRgb_def is_hex_digit_def hex_val_def hex_digit_val_def)

lemma rgbToHex_purple: "rgbToHex 128 0 128 = ''#800080''"
  by (simp add: rgbToHex_def shl32_def toInt32_def toString16_def digits_of.simps digit_char_def)

lemma interpolateColors_red_blue:
  "interpolateColors (Some ''#FF0000'') (Some ''#0000FF'') (1 / 2) = Some ''#800080''"
  by (simp add: interpolateColors_def hexToRgb_red hexToRgb_blue Math_round_def rgbToHex_purple)

lemma upt_3: "[0..<3] = [0, 1, 2]"
  by (simp add: upt_conv_Cons)

lemma gradientStop_red_blue_0:
  "gradientStop [''#FF0000'', ''#0000FF''] 3 0 = \<lparr>color = Some ''#FF0000'', position = Some 0\<rparr>"
  by (simp add: gradientStop_def Let_def js_index_def Math_round_def)

lemma gradientStop_red_blue_1:
  "gradientStop [''#FF0000'', ''#0000FF''] 3 1 = \<lparr>color = Some ''#800080'', position = Some 50\<rparr>"
  by (simp add: gradientStop_def Let_def js_index_def Math_round_def ceiling_def
      interpolateColors_red_blue)

lemma gradientStop_red_blue_2:
  "gradientStop [''#FF0000'', ''#0000FF''] 3 2 = \<lparr>color = Some ''#0000FF'', position = Some 100\<rparr>"
  by (simp add: gradientStop_def Let_def js_index_def Math_round_def)

text \<open>
  \<^bold>\<open>C3.\<close> For every list of at least two colours and every step count from 2 to 50,
  \<open>generateGradientStops\<close> returns exactly \<open>steps\<close> stops; the first stop has the first
  input colour, the last stop has the last input colour, the first position is 0, the
  last position is 100, and the positions increase strictly. (The colours need not even be
  valid hex strings for this.)
\<close>

theorem generateGradientStops_endpoints:
  assumes "2 \<le> length colors" "2 \<le> steps" "steps \<le> 50"
  shows "\<exists>g. generateGradientStops colors steps dir = Inr g
     \<and> length (stops g) = steps
     \<and> color (hd (stops g)) = Some (hd colors)
     \<and> color (last (stops g)) = Some (last colors)
     \<and> position (hd (stops g)) = Some 0
     \<and> position (last (stops g)) = Some 100
     \<and> (\<forall>i j. i < j \<and> j < steps \<longrightarrow>
           (\<exists>p q. position (stops g ! i) = Some p \<and> position (stops g ! j) = Some q \<and> p < q))"
proof -
  let ?ss = "map (gradientStop colors steps) [0..<steps]"
  have ne: "[0..<steps] \<noteq> []" using assms(2) by simp
  have hd: "hd ?ss = gradientStop colors steps 0"
    using assms(2) by (simp add: hd_map ne)
  have la: "last ?ss = gradientStop colors steps (steps - 1)"
    using assms(2) by (simp add: last_map ne)
  have inc: "\<exists>p q. position (?ss ! i) = Some p \<and> position (?ss ! j) = Some q \<and> p < q"
    if "i < j" "j < steps" for i j
  proof -
    have s1: "steps \<noteq> 1" using assms(2) by simp
    have i: "i < steps" using that by simp
    let ?p = "\<lambda>k. real_of_int \<lfloor>real k * (100 / (real steps - 1)) * 100 + 1 / 2\<rfloor> / 100"
    have "position (?ss ! i) = Some (?p i)" "position (?ss ! j) = Some (?p j)"
      using i that(2) by (simp_all only: nth_map length_upt nth_upt minus_nat.diff_0 add_0
          gradientStop_position [OF s1])
    moreover have "?p i < ?p j"
      using gradient_positions_increase [OF assms(2,3) that(1)]
      by (intro divide_strict_right_mono) simp_all
    ultimately show ?thesis by blast
  qed
  let ?g = "\<lparr>stops = ?ss, direction = dir\<rparr>"
  have run: "generateGradientStops colors steps dir = Inr ?g"
    by (rule generateGradientStops_Inr [OF assms(1)])
  have first: "hd (stops ?g) = \<lparr>color = Some (hd colors), position = Some 0\<rparr>"
    by (simp only: gradient.select_convs hd gradientStop_first [OF assms(1,2)])
  have final: "last (stops ?g) = \<lparr>color = Some (last colors), position = Some 100\<rparr>"
    by (simp only: gradient.select_convs la gradientStop_last [OF assms(1,2)])
  have "length (stops ?g) = steps"
    by simp
  moreover have "\<forall>i j. i < j \<and> j < steps \<longrightarrow>
      (\<exists>p q. position (stops ?g ! i) = Some p \<and> position (stops ?g ! j) = Some q \<and> p < q)"
    using inc by simp
  ultimately show ?thesis
    using run first final by (intro exI [of _ ?g]) simp
qed

theorem generateGradientStops_endpoints_witness:
  "2 \<le> length [''#FF0000'', ''#0000FF''] \<and> (2 :: nat) \<le> 3 \<and> (3 :: nat) \<le> 50
   \<and> (\<exists>g. generateGradientStops [''#FF0000'', ''#0000FF''] 3 ''to-r'' = Inr g
        \<and> length (stops g) = 3
        \<and> color (hd (stops g)) = Some ''#FF0000''
        \<and> color (last (stops g)) = Some ''#0000FF''
        \<and> position (hd (stops g)) = Some 0
        \<and> position (last (stops g)) = Some 100)"
  using generateGradientStops_endpoints [of "[''#FF0000'', ''#0000FF'']" 3 "''to-r''"]
  by auto

text \<open>
  \<^bold>\<open>C4.\<close> \<open>generateGradientStops(["#FF0000", "#0000FF"], 3, "to-r")\<close> returns three stops at
  the positions 0, 50 and 100. The middle colour is the rounded channel-wise midpoint
  \<open>#800080\<close>: the red channel is \<open>round(255 + 0.5 * (0 - 255)) = 128\<close>, the green one 0
  and the blue one \<open>round(0 + 0.5 * (255 - 0)) = 128\<close>.
\<close>

theorem generateGradientStops_red_blue:
  "generateGradientStops [''#FF0000'', ''#0000FF''] 3 ''to-r'' =
     Inr \<lparr>stops =
            [\<lparr>color = Some ''#FF0000'', position = Some 0\<rparr>,
             \<lparr>color = Some ''#800080'', position = Some 50\<rparr>,
             \<lparr>color = Some ''#0000FF'', position = Some 100\<rparr>],
          direction = ''to-r''\<rparr>
   \<and> interpolateColors (Some ''#FF0000'') (Some ''#0000FF'') (1 / 2) =
       Some (rgbToHex (Math_round (255 + 1 / 2 * (0 - 255))) (Math_round (0 + 1 / 2 * (0 - 0)))
               (Math_round (0 + 1 / 2 * (255 - 0))))"
  by (simp add: generateGradientStops_Inr upt_3 gradientStop_red_blue_0 gradientStop_red_blue_1
      gradientStop_red_blue_2 interpolateColors_red_blue Math_round_def rgbToHex_purple
      del: One_nat_def)

text \<open>
  \<^bold>\<open>C5.\<close> With fewer than two colours (none, or exactly one) \<open>generateGradientStops\<close>
  throws; the result is the error and no stop list.
\<close>

theorem generateGradientStops_insufficient:
  "length colors < 2 \<Longrightarrow> generateGradientStops colors steps dir = Inl InsufficientColors"
  by (simp add: generateGradientStops_def)


theorem generateGradientStops_insufficient_witness:
  "length [''#FF0000''] < 2 \<and> generateGradientStops [''#FF0000''] 10 ''to-r'' = Inl InsufficientColors"
  using generateGradientStops_insufficient [of "[''#FF0000'']" 10 "''to-r''"]
  by simp

text \<open>
  \<^bold>\<open>C10.\<close> \<open>interpolateColors\<close> never raises a colour-format error: when either string
  fails the six-digit parse of \<open>hexToRgb\<close>, it returns the first colour string unchanged,
  whatever the factor. So a gradient over at least two strings, parseable or not, still has
  \<open>steps\<close> stops and no error.
\<close>

theorem interpolateColors_fallback:
  "(hexToRgb c1 = None \<or> hexToRgb c2 = None \<longrightarrow>
      interpolateColors (Some c1) (Some c2) factor = Some c1)
   \<and> (2 \<le> length colors \<longrightarrow>
      (\<exists>g. generateGradientStops colors steps dir = Inr g \<and> length (stops g) = steps))"
  by (auto simp: interpolateColors_def generateGradientStops_Inr split: option.splits)

theorem interpolateColors_fallback_witness:
  "hexToRgb ''red'' = None
   \<and> interpolateColors (Some ''red'') (Some ''#0000FF'') (1 / 2) = Some ''red''
   \<and> 2 \<le> length [''red'', ''blue'']
   \<and> (\<exists>g. generateGradientStops [''red'', ''blue''] 3 ''to-r'' = Inr g \<and> length (stops g) = 3)"
  using interpolateColors_fallback [of "''red''" "''#0000FF''" "1 / 2" "[''red'', ''blue'']" 3 "''to-r''"]
  by (simp add: hexToRgb_def)

section \<open>Properties of the palettes\<close>

subsection \<open>The eleven shades, unfolded\<close>

lemma palette_fold_unfold:
  "foldl (\<lambda>obj shade. js_assign obj (toString10 shade) (f shade)) [] TAILWIND_SHADES =
     [(''50'', f 50), (''100'', f 100), (''200'', f 200), (''300'', f 300), (''400'', f 400),
      (''500'', f 500), (''600'', f 600), (''700'', f 700), (''800'', f 800), (''900'', f 900),
      (''950'', f 950)]"
  by (simp add: TAILWIND_SHADES_def toString10_def digits_of.simps digit_char_def js_assign_def)

lemma generateTailwindPalette_unfold:
  "generateTailwindPalette c nm =
     (let n = parseInt16 (remove1 CHR ''#'' c); f = shadeColor c n in
      \<lparr>name = nm,
       palette = [(''50'', f 50), (''100'', f 100), (''200'', f 200), (''300'', f 300), (''400'', f 400),
      (''500'', f 500), (''600'', f 600), (''700'', f 700), (''800'', f 800), (''900'', f 900),
      (''950'', f 950)]\<rparr>)"
  by (simp add: generateTailwindPalette_def Let_def palette_fold_unfold)

lemma generateTailwindPalette_server_unfold:
  "chroma_parse c = Some rgb \<Longrightarrow>
   generateTailwindPalette_server c nm =
     (let f = (\<lambda>shade. hsl_hex (shadeHSL (rgb2hsl rgb) shade)) in
      Some \<lparr>name = nm,
       palette = [(''50'', f 50), (''100'', f 100), (''200'', f 200), (''300'', f 300), (''400'', f 400),
      (''500'', f 500), (''600'', f 600), (''700'', f 700), (''800'', f 800), (''900'', f 900),
      (''950'', f 950)]\<rparr>)"
  by (simp add: generateTailwindPalette_server_def Let_def palette_fold_unfold)

text \<open>
  In the extension the entry for shade 500 is the input string itself, whatever the
  string is.
\<close>

lemma generateTailwindPalette_500:
  "js_get (palette (generateTailwindPalette c nm)) ''500'' = Some c"
  by (simp add: generateTailwindPalette_unfold Let_def js_get_def shadeColor_def)

lemma generateTailwindPalette_name: "name (generateTailwindPalette c nm) = nm"
  by (simp add: generateTailwindPalette_def Let_def)

text \<open>
  In the pipe server shade 500 goes through the branch \<open>shade <= 500\<close> with ratio 0: the
  lightness is kept, but the saturation is raised to at least \<open>0.1\<close>, and the colour is
  built again by \<open>chroma.hsl\<close> and printed by \<open>hex()\<close>.
\<close>

lemma shadeHSL_500: "shadeHSL (h, s, l) 500 = (h, max (1 / 10) s, l)"
  by (simp add: shadeHSL_def Let_def)

lemma generateTailwindPalette_server_500:
  "chroma_parse c = Some rgb \<Longrightarrow>
   map_option (\<lambda>p. (name p, js_get (palette p) ''500'')) (generateTailwindPalette_server c nm)
     = Some (nm, Some (hsl_hex (hsl_h (rgb2hsl rgb), max (1 / 10) (hsl_s (rgb2hsl rgb)), hsl_l (rgb2hsl rgb))))"
  by (cases "rgb2hsl rgb")
     (simp add: generateTailwindPalette_server_def palette_fold_unfold js_get_def shadeHSL_def Let_def
        hsl_h_def hsl_s_def hsl_l_def)

subsection \<open>A base colour of low saturation\<close>

lemma chroma_parse_7f8080: "chroma_parse ''#7f8080'' = Some (127, 128, 128)"
  by (simp add: chroma_parse_def is_hex_digit_def hex_val_def hex_digit_val_def)

lemma rgb2hsl_7f8080: "rgb2hsl (127, 128, 128) = (Some 180, 1 / 255, 1 / 2)"
  by (simp add: rgb2hsl_def Let_def)

lemma chroma_hsl_180: "chroma_hsl (Some 180) (1 / 10) (1 / 2) = (115, 140, 140)"
  by (simp add: chroma_hsl_def hsl_channel_def Let_def Math_round_def)

lemma toString16_738c8c: "toString16 7572620 = ''738c8c''"
  by (simp add: toString16_def digits_of.simps digit_char_def)

lemma chroma_hex_738c8c: "chroma_hex (115, 140, 140) = ''#738c8c''"
  by (simp add: chroma_hex_def Math_round_def toString16_738c8c padStart6_def)

lemma hsl_hex_738c8c: "hsl_hex (Some 180, 1 / 10, 1 / 2) = ''#738c8c''"
  by (simp add: hsl_hex_def chroma_hsl_180 chroma_hex_738c8c)

text \<open>
  \<^bold>\<open>C1.\<close> The claim: for every valid hex base colour the palette maps shade 500 to exactly
  the input colour, not to a recomputed one. The extension does that
  (\<open>generateTailwindPalette_500\<close>). The pipe server recomputes the entry: for the base
  \<open>#7f8080\<close>, whose saturation \<open>1/255\<close> is below the floor \<open>0.1\<close>, shade 500 is
  \<open>chroma.hsl(180, 0.1, 0.5).hex() = #738c8c\<close>, a different colour.
\<close>

theorem generateTailwindPalette_server_500_recomputed:
  "map_option (\<lambda>p. js_get (palette p) ''500'') (generateTailwindPalette_server ''#7f8080'' nm)
     = Some (Some ''#738c8c'')"
  by (simp add: generateTailwindPalette_server_unfold [OF chroma_parse_7f8080] Let_def js_get_def
      rgb2hsl_7f8080 shadeHSL_500 hsl_hex_738c8c)

subsection \<open>Lightness and hue along the server's scale\<close>

lemma shadeHSL_lightness:
  "hsl_l (shadeHSL (h, s, l) shade) =
     (if shade \<le> 500 then l + (95 / 100 - l) * ((500 - real shade) / 450)
      else l * (1 - (real shade - 500) / 450 * (85 / 100)))"
  by (simp add: shadeHSL_def hsl_l_def Let_def)





lemma chroma_parse_ff0000: "chroma_parse ''#ff0000'' = Some (255, 0, 0)"
  by (simp add: chroma_parse_def is_hex_digit_def hex_val_def hex_digit_val_def)

lemma rgb2hsl_ff0000: "rgb2hsl (255, 0, 0) = (Some 0, 1, 1 / 2)"
  by (simp add: rgb2hsl_def Let_def)





lemma server_lightness_black:
  "hsl_l (shadeHSL (rgb2hsl (0, 0, 0)) 500) = 0 \<and> hsl_l (shadeHSL (rgb2hsl (0, 0, 0)) 950) = 0"
  by (simp add: rgb2hsl_def Let_def shadeHSL_lightness)

subsection \<open>The two palette generators disagree\<close>

lemma hexToRgb_ff0000: "hexToRgb ''#ff0000'' = Some (255, 0, 0)"
  by (simp add: hexToRgb_def is_hex_digit_def hex_val_def hex_digit_val_def)

lemma parseInt16_ff0000: "parseInt16 (remove1 CHR ''#'' ''#ff0000'') = Some 16711680"
  by (simp add: parseInt16_def is_js_space_def is_hex_digit_def hex_val_def hex_digit_val_def Let_def)

lemma toString16_ff: "toString16 255 = ''ff''"
  by (simp add: toString16_def digits_of.simps digit_char_def)

lemma shadeColor_ff0000_50: "shadeColor ''#ff0000'' (Some 16711680) 50 = ''#0000ff''"
  by (simp add: shadeColor_def Let_def hex6_def toString16_ff padStart6_def eval_nat_numeral)

lemma shadeHSL_ff0000_50: "shadeHSL (Some 0, 1, 1 / 2) 50 = (Some 0, 3 / 10, 19 / 20)"
  by (simp add: shadeHSL_def Let_def)

lemma chroma_hsl_0: "chroma_hsl (Some 0) (3 / 10) (19 / 20) = (246, 238, 238)"
  by (simp add: chroma_hsl_def hsl_channel_def Let_def Math_round_def)

lemma toString16_f6eeee: "toString16 16183022 = ''f6eeee''"
  by (simp add: toString16_def digits_of.simps digit_char_def)

lemma chroma_hex_f6eeee: "chroma_hex (246, 238, 238) = ''#f6eeee''"
  by (simp add: chroma_hex_def Math_round_def toString16_f6eeee padStart6_def)

lemma server_ff0000_50:
  "map_option (\<lambda>p. js_get (palette p) ''50'') (generateTailwindPalette_server ''#ff0000'' nm)
     = Some (Some ''#f6eeee'')"
  by (simp add: generateTailwindPalette_server_unfold [OF chroma_parse_ff0000] Let_def js_get_def
      rgb2hsl_ff0000 shadeHSL_ff0000_50 hsl_hex_def chroma_hsl_0 chroma_hex_f6eeee)

lemma extension_ff0000_50:
  "js_get (palette (generateTailwindPalette ''#ff0000'' nm)) ''50'' = Some ''#0000ff''"
  unfolding generateTailwindPalette_unfold parseInt16_ff0000 Let_def
  by (simp add: js_get_def shadeColor_ff0000_50)

text \<open>
  \<^bold>\<open>C9.\<close> The two implementations of palette derivation are not equivalent: there is a
  valid hex base colour on which the integer arithmetic of the extension and the HSL
  arithmetic of the pipe server give different shade scales. For \<open>#ff0000\<close> the extension
  caps shade 50 at the number 255, that is \<open>#0000ff\<close>, where the server gives the tint
  \<open>#f6eeee\<close>.
\<close>

theorem palettes_differ:
  "\<exists>c. hexToRgb c \<noteq> None \<and> chroma_parse c \<noteq> None
     \<and> map_option palette (generateTailwindPalette_server c nm) \<noteq> Some (palette (generateTailwindPalette c nm))"
proof (intro exI conjI)
  show "hexToRgb ''#ff0000'' \<noteq> None"
    by (simp add: hexToRgb_ff0000)
  show "chroma_parse ''#ff0000'' \<noteq> None"
    by (simp add: chroma_parse_ff0000)
  show "map_option palette (generateTailwindPalette_server ''#ff0000'' nm)
      \<noteq> Some (palette (generateTailwindPalette ''#ff0000'' nm))"
  proof
    assume "map_option palette (generateTailwindPalette_server ''#ff0000'' nm)
      = Some (palette (generateTailwindPalette ''#ff0000'' nm))"
    then have "map_option (\<lambda>p. js_get (palette p) ''50'') (generateTailwindPalette_server ''#ff0000'' nm)
        = Some (js_get (palette (generateTailwindPalette ''#ff0000'' nm)) ''50'')"
      by (cases "generateTailwindPalette_server ''#ff0000'' nm") simp_all
    then show False
      by (simp add: server_ff0000_50 extension_ff0000_50)
  qed
qed

section \<open>Properties of the colour schemes\<close>

lemma generateSchemeTool_base:
  assumes "generateSchemeTool strategy baseHue colorNames = Inr ps"
  shows "\<forall>p \<in> set ps. js_get (palette p) ''500'' = Some ''#3B82F6''"
  using assms
  by (auto simp: generateSchemeTool_def Let_def generateTailwindPalette_500 split: option.splits)

lemma schemeName_abc:
  "schemeName [''a'', ''b'', ''c''] 0 = ''a''" "schemeName [''a'', ''b'', ''c''] (Suc 0) = ''b''"
  "schemeName [''a'', ''b'', ''c''] (Suc (Suc 0)) = ''c''"
  by (simp_all add: schemeName_def js_index_def)

lemma strategies_triadic:
  "strategies ''triadic'' 0 = Some [(0, 8 / 10, 6 / 10), (120, 8 / 10, 6 / 10), (240, 8 / 10, 6 / 10)]"
  by (simp add: strategies_def)

lemma hexToRgb_3B82F6: "hexToRgb ''#3B82F6'' = Some (59, 130, 246)"
  by (simp add: hexToRgb_def is_hex_digit_def hex_val_def hex_digit_val_def)

lemma rgb2hsl_3B82F6: "hsl_h (rgb2hsl (59, 130, 246)) = Some (40620 / 187)"
  by (simp add: rgb2hsl_def Let_def hsl_h_def)

text \<open>
  \<^bold>\<open>C6.\<close> The claim: the triadic scheme for base hue 0 and the names a, b, c has three
  palettes whose shade-500 colours have the hues 0, 120 and 240 degrees. The tool of the
  extension computes the three seeds and then ignores them: every palette is generated
  from the constant \<open>#3B82F6\<close>, so all three shade-500 entries are \<open>#3B82F6\<close>, whose hue
  is \<open>40620/187\<close>, about 217 degrees.
\<close>

theorem generateSchemeTool_triadic:
  "(case generateSchemeTool ''triadic'' 0 [''a'', ''b'', ''c''] of
      Inl e \<Rightarrow> []
    | Inr ps \<Rightarrow> map (\<lambda>p. (name p, js_get (palette p) ''500'')) ps)
     = [(''a'', Some ''#3B82F6''), (''b'', Some ''#3B82F6''), (''c'', Some ''#3B82F6'')]
   \<and> map_option (\<lambda>c. hsl_h (rgb2hsl c)) (hexToRgb ''#3B82F6'') = Some (Some (40620 / 187))"
  by (simp add: generateSchemeTool_def strategies_triadic upt_rec schemeName_abc
      generateTailwindPalette_500 generateTailwindPalette_name hexToRgb_3B82F6 rgb2hsl_3B82F6)

text \<open>
  The handler of the pipe server does feed the seeds into the palette: there the three
  shade-500 colours are \<open>#eb4747\<close>, \<open>#47eb47\<close> and \<open>#4747eb\<close>, with hues 0, 120 and 240.
\<close>

lemma toString16_seeds:
  "toString16 15419207 = ''eb4747''" "toString16 4713287 = ''47eb47''" "toString16 4671467 = ''4747eb''"
  by (simp_all add: toString16_def digits_of.simps digit_char_def)

lemma chroma_hex_seeds:
  "chroma_hex (235, 71, 71) = ''#eb4747''" "chroma_hex (71, 235, 71) = ''#47eb47''"
  "chroma_hex (71, 71, 235) = ''#4747eb''"
  by (simp_all add: chroma_hex_def Math_round_def toString16_seeds padStart6_def)

lemma chroma_hsl_seeds:
  "chroma_hsl (Some 0) (4 / 5) (3 / 5) = (235, 71, 71)"
  "chroma_hsl (Some 120) (4 / 5) (3 / 5) = (71, 235, 71)"
  "chroma_hsl (Some 240) (4 / 5) (3 / 5) = (71, 71, 235)"
  by (simp_all add: chroma_hsl_def hsl_channel_def Let_def Math_round_def)

lemma chroma_parse_seeds:
  "chroma_parse ''#eb4747'' = Some (235, 71, 71)" "chroma_parse ''#47eb47'' = Some (71, 235, 71)"
  "chroma_parse ''#4747eb'' = Some (71, 71, 235)"
  by (simp_all add: chroma_parse_def is_hex_digit_def hex_val_def hex_digit_val_def)

lemma rgb2hsl_seeds:
  "rgb2hsl (235, 71, 71) = (Some 0, 41 / 51, 3 / 5)"
  "rgb2hsl (71, 235, 71) = (Some 120, 41 / 51, 3 / 5)"
  "rgb2hsl (71, 71, 235) = (Some 240, 41 / 51, 3 / 5)"
  by (simp_all add: rgb2hsl_def Let_def)

lemma chroma_hsl_seeds_500:
  "chroma_hsl (Some 0) (41 / 51) (3 / 5) = (235, 71, 71)"
  "chroma_hsl (Some 120) (41 / 51) (3 / 5) = (71, 235, 71)"
  "chroma_hsl (Some 240) (41 / 51) (3 / 5) = (71, 71, 235)"
  by (simp_all add: chroma_hsl_def hsl_channel_def Let_def Math_round_def)

lemma generateColorScheme_server_triadic:
  "(case generateColorScheme_server ''triadic'' 0 [''a'', ''b'', ''c''] of
      Inl e \<Rightarrow> []
    | Inr ps \<Rightarrow> map (map_option (\<lambda>p. (name p, js_get (palette p) ''500''))) ps)
     = [Some (''a'', Some ''#eb4747''), Some (''b'', Some ''#47eb47''), Some (''c'', Some ''#4747eb'')]
   \<and> map (\<lambda>c. hsl_h (rgb2hsl c)) [(235, 71, 71), (71, 235, 71), (71, 71, 235)]
     = [Some 0, Some 120, Some 240]"
  by (simp add: generateColorScheme_server_def strategies_triadic upt_rec schemeName_abc
      hsl_hex_def chroma_hsl_seeds chroma_hex_seeds
      generateTailwindPalette_server_500 [OF chroma_parse_seeds(1)]
      generateTailwindPalette_server_500 [OF chroma_parse_seeds(2)]
      generateTailwindPalette_server_500 [OF chroma_parse_seeds(3)]
      rgb2hsl_seeds hsl_h_def hsl_s_def hsl_l_def chroma_hsl_seeds_500)

section \<open>Properties of the formatter\<close>

lemma js_entries_single: "js_entries [(k, v)] = [(k, v)]"
  by (simp add: js_entries_def)

lemma generateTailwindConfig_css:
  "name p \<noteq> ''__proto__'' \<Longrightarrow>
   generateTailwindConfig [p] ''css'' =
     '':root {'' @ [nl]
     @ concat (map (\<lambda>(shade, hex). css_line (name p) shade hex @ [nl]) (js_entries (palette p)))
     @ ''}''"
  by (simp add: generateTailwindConfig_def Let_def js_entries_single js_assign_def)

lemma generateTailwindConfig_css_primary:
  "generateTailwindConfig [\<lparr>name = ''primary'', palette = [(''50'', ''#eff6ff'')]\<rparr>] ''css'' =
     '':root {\<newline>  --color-primary-50: #eff6ff;\<newline>}''"
  by (simp add: generateTailwindConfig_css js_entries_single css_line_def nl_def)

text \<open>
  \<^bold>\<open>C7.\<close> The claim: the \<open>css\<close> format emits one line \<open>--color-{name}-{shade}: {hex};\<close>
  per entry, inside a \<open>:root { ... }\<close> block. The extension does so
  (\<open>generateTailwindConfig_css\<close>); for the palette \<open>primary\<close> with shade 50 = \<open>#eff6ff\<close> it
  gives the three lines of \<open>generateTailwindConfig_css_primary\<close>. The pipe server's copy of
  the function ends each piece with a backslash and the letter n instead of a line break:
  its output for the same palette is a single line.
\<close>

theorem generateTailwindConfig_server_css_primary:
  "generateTailwindConfig_server [\<lparr>name = ''primary'', palette = [(''50'', ''#eff6ff'')]\<rparr>] ''css'' =
     '':root {'' @ [CHR 0x5C, CHR ''n''] @ ''  --color-primary-50: #eff6ff;'' @ [CHR 0x5C, CHR ''n''] @ ''}''
   \<and> nl \<notin> set (generateTailwindConfig_server
                   [\<lparr>name = ''primary'', palette = [(''50'', ''#eff6ff'')]\<rparr>] ''css'')"
  by (simp add: generateTailwindConfig_server_def Let_def js_entries_single css_line_def nl_def
      js_assign_def)

subsection \<open>Independence of the key order\<close>

lemma array_index_inj:
  assumes "array_index k = Some n" "array_index k' = Some n"
  shows "k = k'"
proof -
  have "toString10 n = k" "toString10 n = k'"
    using assms by (auto simp: array_index_def split: if_splits)
  then show ?thesis by simp
qed

lemma js_entries_index_keys:
  assumes "\<forall>k \<in> fst ` set obj. array_index k \<noteq> None"
  shows "js_entries obj = sort_key (\<lambda>(k, v). the (array_index k)) obj"
proof -
  have "filter (\<lambda>(k, v). array_index k \<noteq> None) obj = obj"
    using assms by (intro filter_True) force
  moreover have "filter (\<lambda>(k, v). array_index k = None) obj = []"
    using assms by (intro filter_False) force
  ultimately show ?thesis
    by (simp add: js_entries_def)
qed

lemma js_entries_same_content:
  assumes da: "distinct (map fst a)" and db: "distinct (map fst b)"
    and eq: "map_of a = map_of b"
    and idx: "\<forall>k \<in> fst ` set a. array_index k \<noteq> None"
  shows "js_entries a = js_entries b"
proof -
  let ?f = "\<lambda>(k, v). the (array_index k) :: nat"
  have set_eq: "set a = set b"
    using da db eq by (simp add: map_of_inject_set)
  have "distinct a" "distinct b"
    using da db by (simp_all add: distinct_map)
  then have mset_eq: "mset a = mset b"
    using set_eq by (simp add: set_eq_iff_mset_eq_distinct)
  have inj: "inj_on ?f (set a)"
  proof (rule inj_onI)
    fix x y assume x: "x \<in> set a" and y: "y \<in> set a" and f: "?f x = ?f y"
    obtain k v k' v' where xy: "x = (k, v)" "y = (k', v')"
      by (cases x, cases y) auto
    from idx x y xy obtain n n' where n: "array_index k = Some n" "array_index k' = Some n'"
      by force
    with f xy have "k = k'"
      by (auto intro: array_index_inj)
    with da x y xy show "x = y"
      by (auto dest: eq_key_imp_eq_value)
  qed
  have "sort_key ?f a = sort_key ?f b"
    using mset_eq inj by (intro sort_key_inj_key_eq) simp_all
  moreover have "\<forall>k \<in> fst ` set b. array_index k \<noteq> None"
    using idx set_eq by simp
  ultimately show ?thesis
    using idx by (simp add: js_entries_index_keys)
qed

lemma generateTailwindConfig_single:
  "name p \<noteq> ''__proto__'' \<Longrightarrow>
   generateTailwindConfig [p] format =
     (if format = ''css'' then
        '':root {'' @ [nl]
        @ concat (map (\<lambda>(shade, hex). css_line (name p) shade hex @ [nl]) (js_entries (palette p)))
        @ ''}''
      else
        let members = [(name p, json_object (if format = ''js'' then 8 else 2)
                                  (if format = ''js'' then 8 else 2)
                                  (map (\<lambda>(shade, hex). (shade, json_quote hex)) (js_entries (palette p))))]
        in if format = ''js'' then
             ''module.exports = {'' @ [nl] @ ''  theme: {'' @ [nl] @ ''    extend: {'' @ [nl]
             @ ''      colors: '' @ json_object 8 0 members @ [nl]
             @ ''    }'' @ [nl] @ ''  }'' @ [nl] @ ''}''
           else json_object 2 0 members)"
  by (simp add: generateTailwindConfig_def Let_def js_entries_single json_colors_def js_assign_def)

lemma generateTailwindConfig_proto:
  "name p = ''__proto__'' \<Longrightarrow> generateTailwindConfig [p] format = generateTailwindConfig [] format"
  by (simp add: generateTailwindConfig_def js_assign_def)

text \<open>
  \<^bold>\<open>C8.\<close> Formatting is deterministic, with no influence of the key iteration order. The
  formatter of the model is a function of the palette object, so two runs on the same
  object agree; what remains to show is that the order in which the shade keys were put
  into the object does not matter. Two palettes with the same name and the same shades
  (the same mapping from shade keys, which are array indices, to colours) are formatted to
  the same text in every format, whatever order their keys were created in.
\<close>

theorem generateTailwindConfig_key_order:
  assumes "name p = name q"
    and "map_of (palette p) = map_of (palette q)"
    and "distinct (map fst (palette p))" and "distinct (map fst (palette q))"
    and "\<forall>k \<in> fst ` set (palette p). array_index k \<noteq> None"
  shows "generateTailwindConfig [p] format = generateTailwindConfig [q] format"
proof (cases "name p = ''__proto__''")
  case True
  then show ?thesis
    using assms(1) by (simp add: generateTailwindConfig_proto)
next
  case False
  then have "name q \<noteq> ''__proto__''"
    using assms(1) by simp
  moreover have "js_entries (palette p) = js_entries (palette q)"
    using assms(3,4,2,5) by (rule js_entries_same_content)
  ultimately show ?thesis
    using assms(1) False by (simp add: generateTailwindConfig_single)
qed

lemma array_index_50: "array_index ''50'' = Some 50"
  by (simp add: array_index_def is_dec_digit_def dec_val_def toString10_def digits_of.simps digit_char_def)

lemma array_index_100: "array_index ''100'' = Some 100"
  by (simp add: array_index_def is_dec_digit_def dec_val_def toString10_def digits_of.simps digit_char_def)

theorem generateTailwindConfig_key_order_witness:
  "array_index ''50'' = Some 50 \<and> array_index ''100'' = Some 100
   \<and> map_of [(''50'', ''#eff6ff''), (''100'', ''#dbeafe'')] = map_of [(''100'', ''#dbeafe''), (''50'', ''#eff6ff'')]
   \<and> generateTailwindConfig [\<lparr>name = ''primary'', palette = [(''50'', ''#eff6ff''), (''100'', ''#dbeafe'')]\<rparr>] ''json''
     = generateTailwindConfig [\<lparr>name = ''primary'', palette = [(''100'', ''#dbeafe''), (''50'', ''#eff6ff'')]\<rparr>] ''json''"
proof -
  have m: "map_of [(''50'', ''#eff6ff''), (''100'', ''#dbeafe'')] = map_of [(''100'', ''#dbeafe''), (''50'', ''#eff6ff'')]"
    by (auto simp: fun_eq_iff)
  have "generateTailwindConfig [\<lparr>name = ''primary'', palette = [(''50'', ''#eff6ff''), (''100'', ''#dbeafe'')]\<rparr>] ''json''
     = generateTailwindConfig [\<lparr>name = ''primary'', palette = [(''100'', ''#dbeafe''), (''50'', ''#eff6ff'')]\<rparr>] ''json''"
  proof (rule generateTailwindConfig_key_order)
    show "map_of (palette \<lparr>name = ''primary'', palette = [(''50'', ''#eff6ff''), (''100'', ''#dbeafe'')]\<rparr>)
        = map_of (palette \<lparr>name = ''primary'', palette = [(''100'', ''#dbeafe''), (''50'', ''#eff6ff'')]\<rparr>)"
      using m by (simp only: palette_result.select_convs)
  qed (simp_all add: array_index_50 array_index_100)
  then show ?thesis
    by (intro conjI) (rule array_index_50 array_index_100 m)+
qed

end
